theory Spec2Isabelle
  imports Main
begin

section \<open>The signaling server (src/signaling-server/app.js)\<close>

text \<open>
  The server keeps one process-wide \<open>topics\<close> map (topic name to the set of subscribed
  connections) and, for every accepted connection, the variables captured by the closure
  that \<open>onconnection\<close> creates: \<open>subscribedTopics\<close>, \<open>closed\<close>, \<open>pongReceived\<close> and the
  interval timer \<open>pingInterval\<close>. All handlers run to completion on one event loop, so each
  handler is a function from the state before the event to the state after it, together
  with the calls it makes on the channel objects of the \<open>ws\<close> library.
\<close>

subsection \<open>Values\<close>

text \<open>
  A connection object is identified by a number. A parsed JSON value is a \<open>json\<close>; an
  object is the list of its own properties, in insertion order. Numbers are integers here:
  the handlers only ever test a number for being zero.
\<close>

type_synonym conn = nat

datatype json =
    JNull
  | JBool bool
  | JNum int
  | JStr string
  | JArr "json list"
  | JObj "(string \<times> json) list"

text \<open>The two exceptions that the built-ins used by the message handler can raise.\<close>

datatype js_error = SyntaxError | TypeError

text \<open>
  The bytes of an inbound frame, as far as \<open>JSON.parse\<close> is concerned: either they are not
  JSON text, and \<open>JSON.parse\<close> throws a SyntaxError, or they parse to a value.
\<close>

datatype payload = Unparseable | Parsed json

fun JSON_parse :: "payload \<Rightarrow> js_error + json" where
  "JSON_parse Unparseable = Inl SyntaxError"
| "JSON_parse (Parsed v) = Inr v"

text \<open>JavaScript truthiness of a JSON value; \<open>undefined\<close> (a missing property) is falsy.\<close>

fun truthy :: "json \<Rightarrow> bool" where
  "truthy JNull = False"
| "truthy (JBool b) = b"
| "truthy (JNum n) = (n \<noteq> 0)"
| "truthy (JStr s) = (s \<noteq> [])"
| "truthy (JArr xs) = True"
| "truthy (JObj kvs) = True"

fun truthy_opt :: "json option \<Rightarrow> bool" where
  "truthy_opt None = False"
| "truthy_opt (Some v) = truthy v"

text \<open>
  Property read \<open>message.k\<close> for the keys the handler reads (\<open>type\<close>, \<open>topics\<close>, \<open>topic\<close>):
  only an object can own them, every other value yields \<open>undefined\<close>.
\<close>

fun get_prop :: "json \<Rightarrow> string \<Rightarrow> json option" where
  "get_prop (JObj kvs) k = map_of kvs k"
| "get_prop _ k = None"

text \<open>Property write \<open>message.k = v\<close>: an existing key keeps its place, a new key goes last.\<close>

fun assign_kv :: "(string \<times> json) list \<Rightarrow> string \<Rightarrow> json \<Rightarrow> (string \<times> json) list" where
  "assign_kv [] k v = [(k, v)]"
| "assign_kv ((k', v') # kvs) k v =
     (if k' = k then (k, v) # kvs else (k', v') # assign_kv kvs k v)"

fun assign :: "json \<Rightarrow> string \<Rightarrow> json \<Rightarrow> json" where
  "assign (JObj kvs) k v = JObj (assign_kv kvs k v)"
| "assign m k v = m"

subsection \<open>JavaScript sets and the topics map\<close>

text \<open>
  A JavaScript \<open>Set\<close> iterates in insertion order and holds no duplicates: a list to which
  \<open>add\<close> appends an element only when it is new.
\<close>

definition set_add :: "'a \<Rightarrow> 'a list \<Rightarrow> 'a list" where
  "set_add x xs = (if x \<in> set xs then xs else xs @ [x])"

definition set_delete :: "'a \<Rightarrow> 'a list \<Rightarrow> 'a list" where
  "set_delete x xs = removeAll x xs"

type_synonym registry = "string \<rightharpoonup> conn list"

text \<open>\<open>topics.get(k)\<close> for an arbitrary JSON key: the map only ever holds string keys.\<close>

fun topics_get :: "registry \<Rightarrow> json \<Rightarrow> conn list option" where
  "topics_get tp (JStr name) = tp name"
| "topics_get tp _ = None"

text \<open>
  \<open>map.setIfUndefined\<close> of lib0: the entry under the key, created first when there is
  none. It returns the updated map and the entry.
\<close>

definition setIfUndefined :: "registry \<Rightarrow> string \<Rightarrow> conn list \<Rightarrow> registry \<times> conn list" where
  "setIfUndefined m key createT =
     (case m key of None \<Rightarrow> (m(key \<mapsto> createT), createT) | Some s \<Rightarrow> (m, s))"

subsection \<open>Per-connection state and the channel\<close>

record closure =
  subscribedTopics :: "string list"
  closed :: bool
  pongReceived :: bool
  pingInterval :: bool

text \<open>
  \<open>pingInterval\<close> is True while the interval timer is scheduled, False after
  \<open>clearInterval\<close>. \<open>onconnection\<close> starts every connection in this state.
\<close>

definition onconnection :: closure where
  "onconnection =
     \<lparr>subscribedTopics = [], closed = False, pongReceived = True, pingInterval = True\<rparr>"

definition wsReadyStateConnecting :: nat where "wsReadyStateConnecting = 0"
definition wsReadyStateOpen :: nat where "wsReadyStateOpen = 1"
definition wsReadyStateClosing :: nat where "wsReadyStateClosing = 2"
definition wsReadyStateClosed :: nat where "wsReadyStateClosed = 3"

text \<open>
  What the channel objects answer during one handler: the \<open>readyState\<close> of each connection,
  and whether its \<open>send\<close> and \<open>ping\<close> methods throw. They belong to the \<open>ws\<close> library, so
  they are parameters. The library emits the close event from a later turn of the event
  loop, never from inside \<open>conn.close()\<close>.
\<close>

record channels =
  readyState :: "conn \<Rightarrow> nat"
  send_throws :: "conn \<Rightarrow> bool"
  ping_throws :: "conn \<Rightarrow> bool"

text \<open>
  The calls a handler makes on a channel object, in order. \<open>ConnSend c m\<close> is
  \<open>c.send(JSON.stringify(m))\<close>.
\<close>

datatype call = ConnClose conn | ConnSend conn json | ConnPing conn

subsection \<open>send (lines 48-57)\<close>

text \<open>
  The guard on \<open>readyState\<close> closes the connection and then control falls into the
  \<open>try\<close> block: \<open>conn.send\<close> is called in every case.
\<close>

definition send :: "channels \<Rightarrow> conn \<Rightarrow> json \<Rightarrow> call list" where
  "send ch conn message =
     (if readyState ch conn \<noteq> wsReadyStateConnecting \<and> readyState ch conn \<noteq> wsReadyStateOpen
      then [ConnClose conn] else [])
     @ [ConnSend conn message]
     @ (if send_throws ch conn then [ConnClose conn] else [])"

subsection \<open>The heartbeat (lines 68-84)\<close>

definition ontick :: "channels \<Rightarrow> conn \<Rightarrow> closure \<Rightarrow> closure \<times> call list" where
  "ontick ch conn cl =
     (if \<not> pongReceived cl
      then (cl\<lparr>pingInterval := False\<rparr>, [ConnClose conn])
      else (cl\<lparr>pongReceived := False\<rparr>,
            ConnPing conn # (if ping_throws ch conn then [ConnClose conn] else [])))"

definition onpong :: "closure \<Rightarrow> closure" where
  "onpong cl = cl\<lparr>pongReceived := True\<rparr>"

subsection \<open>The close handler (lines 86-96)\<close>

fun close_each :: "conn \<Rightarrow> string \<Rightarrow> registry \<Rightarrow> registry" where
  "close_each conn topicName tp =
     (case tp topicName of
        None \<Rightarrow> tp(topicName := None)
      | Some subs \<Rightarrow>
          (if length (set_delete conn subs) = 0 then tp(topicName := None)
           else tp(topicName \<mapsto> set_delete conn subs)))"

definition onclose :: "conn \<Rightarrow> registry \<times> closure \<Rightarrow> registry \<times> closure" where
  "onclose conn s =
     (fold (close_each conn) (subscribedTopics (snd s)) (fst s),
      (snd s)\<lparr>subscribedTopics := [], closed := True\<rparr>)"

subsection \<open>The message handler (lines 98-134)\<close>

text \<open>
  \<open>(message.topics || []).forEach\<close>: a missing or falsy \<open>topics\<close> is replaced by the empty
  array; an array is iterated; any other truthy value has no \<open>forEach\<close> method and the call
  throws a TypeError before the loop body runs.
\<close>

fun topics_or_empty :: "json option \<Rightarrow> js_error + json list" where
  "topics_or_empty None = Inr []"
| "topics_or_empty (Some (JArr xs)) = Inr xs"
| "topics_or_empty (Some v) = (if truthy v then Inl TypeError else Inr [])"

fun subscribe_each :: "conn \<Rightarrow> json \<Rightarrow> registry \<times> closure \<Rightarrow> registry \<times> closure" where
  "subscribe_each conn (JStr topicName) (tp, cl) =
     (case setIfUndefined tp topicName [] of
        (tp', topic) \<Rightarrow>
          (tp'(topicName \<mapsto> set_add conn topic),
           cl\<lparr>subscribedTopics := set_add topicName (subscribedTopics cl)\<rparr>))"
| "subscribe_each conn v s = s"

fun unsubscribe_each :: "conn \<Rightarrow> json \<Rightarrow> registry \<times> closure \<Rightarrow> registry \<times> closure" where
  "unsubscribe_each conn topicName (tp, cl) =
     (case topicName of
        JStr name \<Rightarrow>
          (case tp name of
             None \<Rightarrow> (tp, cl)
           | Some subs \<Rightarrow> (tp(name \<mapsto> set_delete conn subs), cl))
      | _ \<Rightarrow> (tp, cl))"

definition publish :: "channels \<Rightarrow> json \<Rightarrow> registry \<Rightarrow> call list" where
  "publish ch message tp =
     (if truthy_opt (get_prop message ''topic'') then
        (case topics_get tp (case get_prop message ''topic'' of Some t \<Rightarrow> t | None \<Rightarrow> JNull) of
           None \<Rightarrow> []
         | Some receivers \<Rightarrow>
             concat (map (\<lambda>receiver.
               send ch receiver (assign message ''clients'' (JNum (int (length receivers)))))
               receivers))
      else [])"

definition onmessage ::
  "channels \<Rightarrow> conn \<Rightarrow> payload \<Rightarrow> registry \<times> closure
     \<Rightarrow> js_error + ((registry \<times> closure) \<times> call list)" where
  "onmessage ch conn raw s =
     (case JSON_parse raw of
        Inl e \<Rightarrow> Inl e
      | Inr message \<Rightarrow>
          if truthy message \<and> truthy_opt (get_prop message ''type'') \<and> \<not> closed (snd s) then
            if get_prop message ''type'' = Some (JStr ''subscribe'') then
              (case topics_or_empty (get_prop message ''topics'') of
                 Inl e \<Rightarrow> Inl e
               | Inr xs \<Rightarrow> Inr (fold (subscribe_each conn) xs s, []))
            else if get_prop message ''type'' = Some (JStr ''unsubscribe'') then
              (case topics_or_empty (get_prop message ''topics'') of
                 Inl e \<Rightarrow> Inl e
               | Inr xs \<Rightarrow> Inr (fold (unsubscribe_each conn) xs s, []))
            else if get_prop message ''type'' = Some (JStr ''publish'') then
              Inr (s, publish ch message (fst s))
            else if get_prop message ''type'' = Some (JStr ''ping'') then
              Inr (s, send ch conn (JObj [(''type'', JStr ''pong'')]))
            else Inr (s, [])
          else Inr (s, []))"

subsection \<open>Observations\<close>

text \<open>The subscriber set of a topic; a topic without an entry has no subscribers.\<close>

definition subscribers :: "registry \<Rightarrow> string \<Rightarrow> conn list" where
  "subscribers tp T = (case tp T of None \<Rightarrow> [] | Some subs \<Rightarrow> subs)"

text \<open>
  The connection is in the topic's subscriber set exactly when the topic name is in the
  connection's own \<open>subscribedTopics\<close>.
\<close>

definition consistent_at :: "conn \<Rightarrow> string \<Rightarrow> registry \<times> closure \<Rightarrow> bool" where
  "consistent_at conn T s =
     ((conn \<in> set (subscribers (fst s) T)) = (T \<in> set (subscribedTopics (snd s))))"

text \<open>
  One half of it: a connection that is in a topic's subscriber set has the topic name in
  its \<open>subscribedTopics\<close>.
\<close>

definition member_implies_subscribed :: "conn \<Rightarrow> registry \<times> closure \<Rightarrow> bool" where
  "member_implies_subscribed conn s =
     (\<forall>T. conn \<in> set (subscribers (fst s) T) \<longrightarrow> T \<in> set (subscribedTopics (snd s)))"

text \<open>The connection has joined the topic on both sides.\<close>

definition joined :: "conn \<Rightarrow> string \<Rightarrow> registry \<times> closure \<Rightarrow> bool" where
  "joined conn T s =
     (conn \<in> set (subscribers (fst s) T) \<and> T \<in> set (subscribedTopics (snd s)))"

text \<open>The messages handed to \<open>conn.send\<close>, with their receivers, in order.\<close>

fun deliveries :: "call list \<Rightarrow> (conn \<times> json) list" where
  "deliveries [] = []"
| "deliveries (ConnSend c m # cs) = (c, m) # deliveries cs"
| "deliveries (ConnClose c # cs) = deliveries cs"
| "deliveries (ConnPing c # cs) = deliveries cs"

subsection \<open>Concrete channels, messages and states\<close>

definition all_open :: channels where
  "all_open =
     \<lparr>readyState = (\<lambda>c. wsReadyStateOpen), send_throws = (\<lambda>c. False),
      ping_throws = (\<lambda>c. False)\<rparr>"

definition all_closing :: channels where
  "all_closing =
     \<lparr>readyState = (\<lambda>c. wsReadyStateClosing), send_throws = (\<lambda>c. False),
      ping_throws = (\<lambda>c. False)\<rparr>"

definition subscribe_msg :: "string list \<Rightarrow> json" where
  "subscribe_msg ts = JObj [(''type'', JStr ''subscribe''), (''topics'', JArr (map JStr ts))]"

definition unsubscribe_msg :: "string list \<Rightarrow> json" where
  "unsubscribe_msg ts =
     JObj [(''type'', JStr ''unsubscribe''), (''topics'', JArr (map JStr ts))]"

definition publish_msg :: "string \<Rightarrow> json" where
  "publish_msg T = JObj [(''type'', JStr ''publish''), (''topic'', JStr T), (''data'', JStr ''hi'')]"

definition delivered_msg :: "string \<Rightarrow> int \<Rightarrow> json" where
  "delivered_msg T n =
     JObj [(''type'', JStr ''publish''), (''topic'', JStr T), (''data'', JStr ''hi''),
           (''clients'', JNum n)]"

definition ping_msg :: json where
  "ping_msg = JObj [(''type'', JStr ''ping'')]"

definition pong_msg :: json where
  "pong_msg = JObj [(''type'', JStr ''pong'')]"

text \<open>A \<open>subscribe\<close> whose \<open>topics\<close> field is the number 5.\<close>

definition bad_topics_msg :: json where
  "bad_topics_msg = JObj [(''type'', JStr ''subscribe''), (''topics'', JNum 5)]"

text \<open>No topics, one fresh connection.\<close>

definition s_fresh :: "registry \<times> closure" where
  "s_fresh = (Map.empty, onconnection)"

text \<open>The connection 0 after it subscribed to \<open>a\<close>, and after it then unsubscribed.\<close>

definition s_sub :: "registry \<times> closure" where
  "s_sub = ([''a'' \<mapsto> [0]], onconnection\<lparr>subscribedTopics := [''a'']\<rparr>)"

definition s_unsub :: "registry \<times> closure" where
  "s_unsub = ([''a'' \<mapsto> []], onconnection\<lparr>subscribedTopics := [''a'']\<rparr>)"

text \<open>Connections 0 and 1 in \<open>room1\<close>, seen from connection 0.\<close>

definition s_room1 :: "registry \<times> closure" where
  "s_room1 = ([''room1'' \<mapsto> [0, 1]], onconnection\<lparr>subscribedTopics := [''room1'']\<rparr>)"

text \<open>The same, after the close handler of connection 0 has set its flag.\<close>

definition s_room1_closed :: "registry \<times> closure" where
  "s_room1_closed = ([''room1'' \<mapsto> [1]], onconnection\<lparr>closed := True\<rparr>)"

text \<open>Connection 1 subscribed to the topic whose name is the empty string.\<close>

definition s_empty_name :: "registry \<times> closure" where
  "s_empty_name = (['''' \<mapsto> [1]], onconnection\<lparr>subscribedTopics := ['''']\<rparr>)"

section \<open>Properties\<close>

subsection \<open>Helper lemmas\<close>

lemma get_prop_truthy: "get_prop message k = Some v \<Longrightarrow> truthy message"
  by (cases message) simp_all

lemma deliveries_append: "deliveries (xs @ ys) = deliveries xs @ deliveries ys"
  by (induction xs rule: deliveries.induct) simp_all

lemma deliveries_send: "deliveries (send ch conn message) = [(conn, message)]"
  by (simp add: send_def deliveries_append)

lemma deliveries_fanout:
  "deliveries (concat (map (\<lambda>receiver. send ch receiver message) receivers))
     = map (\<lambda>receiver. (receiver, message)) receivers"
  by (induction receivers) (simp_all add: deliveries_append deliveries_send)

text \<open>Subscribing again to topics already joined changes nothing.\<close>

lemma joined_subscribe_each_id:
  "joined conn T s \<Longrightarrow> subscribe_each conn (JStr T) s = s"
  by (cases s) (auto simp: joined_def subscribers_def setIfUndefined_def set_add_def
      split: option.splits)

lemma joined_after_subscribe_each: "joined conn T (subscribe_each conn (JStr T) s)"
  by (cases s) (auto simp: joined_def subscribers_def setIfUndefined_def set_add_def
      split: option.splits)

lemma joined_subscribe_each_mono:
  "joined conn T s \<Longrightarrow> joined conn T (subscribe_each conn x s)"
  by (cases s; cases x) (auto simp: joined_def subscribers_def setIfUndefined_def set_add_def
      split: option.splits)

lemma joined_fold_mono:
  "joined conn T s \<Longrightarrow> joined conn T (fold (subscribe_each conn) xs s)"
  by (induction xs arbitrary: s) (simp_all add: joined_subscribe_each_mono)

lemma joined_after_fold:
  "JStr T \<in> set xs \<Longrightarrow> joined conn T (fold (subscribe_each conn) xs s)"
proof (induction xs arbitrary: s)
  case Nil
  then show ?case by simp
next
  case (Cons x xs)
  show ?case
  proof (cases "x = JStr T")
    case True
    then show ?thesis
      by (simp add: joined_fold_mono joined_after_subscribe_each)
  next
    case False
    with Cons show ?thesis by simp
  qed
qed

lemma subscribe_each_id:
  "(\<And>T. x = JStr T \<Longrightarrow> joined conn T s) \<Longrightarrow> subscribe_each conn x s = s"
  by (cases x) (simp_all add: joined_subscribe_each_id)

lemma fold_subscribe_id:
  "(\<And>T. JStr T \<in> set xs \<Longrightarrow> joined conn T s) \<Longrightarrow> fold (subscribe_each conn) xs s = s"
proof (induction xs)
  case Nil
  then show ?case by simp
next
  case (Cons x xs)
  have "subscribe_each conn x s = s"
    by (rule subscribe_each_id) (simp add: Cons.prems)
  with Cons show ?case by simp
qed

lemma fold_subscribe_twice:
  "fold (subscribe_each conn) xs (fold (subscribe_each conn) xs s) = fold (subscribe_each conn) xs s"
  by (rule fold_subscribe_id) (rule joined_after_fold)

lemma closed_subscribe_each: "closed (snd (subscribe_each conn x s)) = closed (snd s)"
  by (cases s; cases x) (simp_all add: setIfUndefined_def split: option.splits)

lemma closed_fold_subscribe: "closed (snd (fold (subscribe_each conn) xs s)) = closed (snd s)"
  by (induction xs arbitrary: s) (simp_all add: closed_subscribe_each)

lemma set_add_member: "x \<in> set (set_add x xs)"
  by (simp add: set_add_def)

text \<open>
  The close handler, topic by topic: every topic in \<open>subscribedTopics\<close> loses the
  connection, and its entry when that leaves it empty; the other topics are untouched.
\<close>

lemma close_each_apply:
  "close_each conn n tp T =
     (if T = n then
        (case tp n of
           None \<Rightarrow> None
         | Some subs \<Rightarrow> if set_delete conn subs = [] then None else Some (set_delete conn subs))
      else tp T)"
  by (simp split: option.splits)

lemma set_delete_twice: "set_delete x (set_delete x xs) = set_delete x xs"
  by (simp add: set_delete_def)

lemma fold_close_each:
  "fold (close_each conn) ns tp T =
     (if T \<in> set ns then
        (case tp T of
           None \<Rightarrow> None
         | Some subs \<Rightarrow> if set_delete conn subs = [] then None else Some (set_delete conn subs))
      else tp T)"
proof (induction ns arbitrary: tp)
  case Nil
  then show ?case by simp
next
  case (Cons n ns)
  have "fold (close_each conn) (n # ns) tp T = fold (close_each conn) ns (close_each conn n tp) T"
    by (simp del: close_each.simps)
  also have "\<dots> =
     (if T \<in> set ns then
        (case close_each conn n tp T of
           None \<Rightarrow> None
         | Some subs \<Rightarrow> if set_delete conn subs = [] then None else Some (set_delete conn subs))
      else close_each conn n tp T)"
    by (rule Cons.IH)
  also have "\<dots> =
     (if T \<in> set (n # ns) then
        (case tp T of
           None \<Rightarrow> None
         | Some subs \<Rightarrow> if set_delete conn subs = [] then None else Some (set_delete conn subs))
      else tp T)"
    unfolding close_each_apply
    by (simp add: set_delete_twice split: option.splits)
  finally show ?case .
qed

lemma onclose_flags:
  "closed (snd (onclose conn s)) \<and> subscribedTopics (snd (onclose conn s)) = []
   \<and> pongReceived (snd (onclose conn s)) = pongReceived (snd s)"
  by (simp add: onclose_def)

lemma onclose_leaves_topics:
  "T \<in> set (subscribedTopics (snd s)) \<Longrightarrow>
     conn \<notin> set (subscribers (fst (onclose conn s)) T) \<and> fst (onclose conn s) T \<noteq> Some []"
  by (simp add: onclose_def fold_close_each subscribers_def set_delete_def split: option.splits)

lemma onclose_other_topics:
  "T \<notin> set (subscribedTopics (snd s)) \<Longrightarrow> fst (onclose conn s) T = fst s T"
  by (simp add: onclose_def fold_close_each)

lemma onclose_in_no_topic:
  assumes "member_implies_subscribed conn s"
  shows "conn \<notin> set (subscribers (fst (onclose conn s)) T)"
proof (cases "T \<in> set (subscribedTopics (snd s))")
  case True
  then show ?thesis by (simp add: onclose_leaves_topics)
next
  case False
  with assms have "conn \<notin> set (subscribers (fst s) T)"
    by (auto simp: member_implies_subscribed_def)
  with False show ?thesis
    by (simp add: onclose_other_topics subscribers_def)
qed

lemma subscribe_each_member:
  "member_implies_subscribed conn s \<Longrightarrow> member_implies_subscribed conn (subscribe_each conn x s)"
  by (cases s; cases x)
     (auto simp: member_implies_subscribed_def subscribers_def setIfUndefined_def set_add_def
      split: option.splits if_splits)

lemma unsubscribe_each_member:
  "member_implies_subscribed conn s \<Longrightarrow> member_implies_subscribed conn (unsubscribe_each conn x s)"
  by (cases s; cases x)
     (auto simp: member_implies_subscribed_def subscribers_def set_delete_def
      split: option.splits if_splits)

lemma fold_subscribe_member:
  "member_implies_subscribed conn s \<Longrightarrow>
     member_implies_subscribed conn (fold (subscribe_each conn) xs s)"
  by (induction xs arbitrary: s) (simp_all add: subscribe_each_member)

lemma fold_unsubscribe_member:
  "member_implies_subscribed conn s \<Longrightarrow>
     member_implies_subscribed conn (fold (unsubscribe_each conn) xs s)"
  by (induction xs arbitrary: s) (simp_all add: unsubscribe_each_member)

lemma onmessage_member:
  assumes "member_implies_subscribed conn s"
    and "onmessage ch conn raw s = Inr (s', calls)"
  shows "member_implies_subscribed conn s'"
  using assms
  by (auto simp: onmessage_def fold_subscribe_member fold_unsubscribe_member
      split: sum.splits if_splits)

text \<open>
  A handler of one connection never changes whether another connection is in a topic's
  subscriber set.
\<close>

lemma subscribe_each_other:
  "c \<noteq> conn \<Longrightarrow>
     (c \<in> set (subscribers (fst (subscribe_each conn x s)) T)) = (c \<in> set (subscribers (fst s) T))"
  by (cases s; cases x)
     (auto simp: subscribers_def setIfUndefined_def set_add_def split: option.splits if_splits)

lemma unsubscribe_each_other:
  "c \<noteq> conn \<Longrightarrow>
     (c \<in> set (subscribers (fst (unsubscribe_each conn x s)) T)) = (c \<in> set (subscribers (fst s) T))"
  by (cases s; cases x)
     (auto simp: subscribers_def set_delete_def split: option.splits if_splits)

lemma fold_subscribe_other:
  "c \<noteq> conn \<Longrightarrow>
     (c \<in> set (subscribers (fst (fold (subscribe_each conn) xs s)) T))
       = (c \<in> set (subscribers (fst s) T))"
  by (induction xs arbitrary: s) (simp_all add: subscribe_each_other)

lemma fold_unsubscribe_other:
  "c \<noteq> conn \<Longrightarrow>
     (c \<in> set (subscribers (fst (fold (unsubscribe_each conn) xs s)) T))
       = (c \<in> set (subscribers (fst s) T))"
  by (induction xs arbitrary: s) (simp_all add: unsubscribe_each_other del: unsubscribe_each.simps)

lemma onmessage_other:
  assumes "c \<noteq> conn"
    and "onmessage ch conn raw s = Inr (s', calls)"
  shows "(c \<in> set (subscribers (fst s') T)) = (c \<in> set (subscribers (fst s) T))"
  using assms
  by (auto simp: onmessage_def fold_subscribe_other fold_unsubscribe_other
      split: sum.splits if_splits)

lemma set_delete_other: "c \<noteq> conn \<Longrightarrow> (c \<in> set (set_delete conn xs)) = (c \<in> set xs)"
  by (simp add: set_delete_def)

lemma set_delete_empty_other: "set_delete conn xs = [] \<Longrightarrow> c \<noteq> conn \<Longrightarrow> c \<notin> set xs"
  using set_delete_other [of c conn xs] by simp

lemma onclose_other:
  "c \<noteq> conn \<Longrightarrow>
     (c \<in> set (subscribers (fst (onclose conn s)) T)) = (c \<in> set (subscribers (fst s) T))"
  by (auto simp: onclose_def fold_close_each subscribers_def set_delete_other
      dest: set_delete_empty_other split: option.splits)

subsection \<open>Consistency of the two indexes\<close>

text \<open>
  C1. The claim: a connection is in a topic's subscriber set exactly when the topic name is
  in the connection's \<open>subscribedTopics\<close>, and subscribe, unsubscribe, publish, ping and
  close all preserve this. The \<open>unsubscribe\<close> branch removes the connection from the
  topic's set and leaves \<open>subscribedTopics\<close> alone: connection 0 subscribes to \<open>a\<close>, which
  gives a consistent state, then unsubscribes from \<open>a\<close>, and the state is no longer
  consistent.
\<close>

theorem unsubscribe_breaks_consistency:
  "onmessage all_open 0 (Parsed (subscribe_msg [''a''])) s_fresh = Inr (s_sub, [])
   \<and> onmessage all_open 0 (Parsed (unsubscribe_msg [''a''])) s_sub = Inr (s_unsub, [])
   \<and> consistent_at 0 ''a'' s_sub
   \<and> \<not> consistent_at 0 ''a'' s_unsub"
  by (simp add: onmessage_def subscribe_msg_def unsubscribe_msg_def s_fresh_def s_sub_def
      s_unsub_def onconnection_def setIfUndefined_def set_add_def set_delete_def
      consistent_at_def subscribers_def)

subsection \<open>Malformed payloads\<close>

text \<open>
  C2. The claim: a malformed payload is discarded without throwing. The handler calls
  \<open>JSON.parse\<close> outside any \<open>try\<close>, so a payload that is not JSON leaves the handler with a
  SyntaxError, whatever the state; and a \<open>subscribe\<close> whose \<open>topics\<close> is the number 5 leaves
  it with a TypeError, since a number has no \<open>forEach\<close>.
\<close>

theorem malformed_payload_throws:
  "onmessage ch conn Unparseable s = Inl SyntaxError
   \<and> onmessage all_open 0 (Parsed bad_topics_msg) s_fresh = Inl TypeError"
  by (simp add: onmessage_def bad_topics_msg_def s_fresh_def onconnection_def)

subsection \<open>Topics without subscribers\<close>

text \<open>
  C3. The claim: a topic has an entry exactly when its subscriber set is non-empty, and
  unsubscribe deletes the entry when it empties the set. The \<open>unsubscribe\<close> branch only
  deletes the connection from the set: after connection 0, the only subscriber of \<open>a\<close>,
  unsubscribes, the entry of \<open>a\<close> is still there and holds the empty set.
\<close>

theorem unsubscribe_keeps_empty_topic:
  "onmessage all_open 0 (Parsed (unsubscribe_msg [''a''])) s_sub = Inr (s_unsub, [])
   \<and> fst s_sub ''a'' = Some [0]
   \<and> fst s_unsub ''a'' = Some []"
  by (simp add: onmessage_def unsubscribe_msg_def s_sub_def s_unsub_def onconnection_def
      set_delete_def)

subsection \<open>The close handler and the timer\<close>

text \<open>
  C4. The claim: on close the connection is marked closed, removed from every topic it
  subscribed to, topics it alone held are deleted, its \<open>subscribedTopics\<close> is cleared, and
  its heartbeat timer is cancelled. The close handler does all of this except the last: it
  never calls \<open>clearInterval\<close>, so the timer is scheduled after the handler exactly when it
  was before. For connection 0 subscribed to \<open>a\<close> the registry is emptied and the flag set,
  and the timer is still scheduled.
\<close>

theorem onclose_keeps_timer:
  "pingInterval (snd (onclose conn s)) = pingInterval (snd s)
   \<and> onclose 0 s_sub = (Map.empty, onconnection\<lparr>closed := True\<rparr>)
   \<and> pingInterval (snd (onclose 0 s_sub))"
  by (simp add: onclose_def s_sub_def onconnection_def set_delete_def)

subsection \<open>send on a channel that is not open\<close>

text \<open>
  C5. The claim: when the channel is neither connecting nor open, \<open>send\<close> closes the
  connection and does not attempt delivery. There is no \<open>return\<close> or \<open>else\<close> after the guard:
  \<open>conn.send\<close> is called whatever the \<open>readyState\<close>. On a channel that is closing the
  calls are \<open>conn.close()\<close> followed by \<open>conn.send\<close> of the message, as when a \<open>ping\<close>
  message arrives on such a connection.
\<close>

theorem send_always_attempts_delivery:
  "ConnSend conn message \<in> set (send ch conn message)
   \<and> readyState all_closing 0 = wsReadyStateClosing
   \<and> send all_closing 0 pong_msg = [ConnClose 0, ConnSend 0 pong_msg]
   \<and> onmessage all_closing 0 (Parsed ping_msg) s_fresh
        = Inr (s_fresh, [ConnClose 0, ConnSend 0 pong_msg])"
  by (simp add: send_def all_closing_def wsReadyStateConnecting_def wsReadyStateOpen_def
      wsReadyStateClosing_def onmessage_def ping_msg_def pong_msg_def s_fresh_def onconnection_def)

subsection \<open>Publish\<close>

text \<open>
  C6, amended. A \<open>publish\<close> message from a connection whose \<open>closed\<close> flag is not set, with
  a topic name T that is not the empty string: when T has the subscribers \<open>receivers\<close>,
  the handler calls \<open>send\<close> once for each of them, in the order of the set and the sender
  included if it is among them, each time with the message augmented by \<open>clients\<close> = the
  number of receivers, and the state is unchanged; when T (empty or not) has no entry, the
  handler makes no call and returns normally.
\<close>

theorem publish_fanout:
  assumes "\<not> closed cl"
    and "get_prop message ''type'' = Some (JStr ''publish'')"
    and "get_prop message ''topic'' = Some (JStr T)"
  shows "(T \<noteq> [] \<and> tp T = Some receivers \<longrightarrow>
           (\<exists>calls. onmessage ch conn (Parsed message) (tp, cl) = Inr ((tp, cl), calls)
              \<and> deliveries calls =
                  map (\<lambda>receiver. (receiver,
                         assign message ''clients'' (JNum (int (length receivers))))) receivers))
       \<and> (tp T = None \<longrightarrow> onmessage ch conn (Parsed message) (tp, cl) = Inr ((tp, cl), []))"
  using assms get_prop_truthy[OF assms(2)]
  by (simp add: onmessage_def publish_def deliveries_fanout)

text \<open>
  The scenario of the specification: connections 0 and 1 are in \<open>room1\<close> and 0 publishes;
  both receive the message with \<open>clients\<close> = 2. A publish to \<open>room2\<close>, which has no entry,
  delivers nothing.
\<close>

theorem publish_fanout_witness:
  "\<not> closed (snd s_room1)
   \<and> get_prop (publish_msg ''room1'') ''type'' = Some (JStr ''publish'')
   \<and> get_prop (publish_msg ''room1'') ''topic'' = Some (JStr ''room1'')
   \<and> ''room1'' \<noteq> [] \<and> fst s_room1 ''room1'' = Some [0, 1]
   \<and> (\<exists>calls. onmessage all_open 0 (Parsed (publish_msg ''room1'')) s_room1 = Inr (s_room1, calls)
        \<and> deliveries calls = [(0, delivered_msg ''room1'' 2), (1, delivered_msg ''room1'' 2)])
   \<and> fst s_room1 ''room2'' = None
   \<and> onmessage all_open 0 (Parsed (publish_msg ''room2'')) s_room1 = Inr (s_room1, [])"
proof -
  have a: "\<not> closed (snd s_room1)"
    by (simp add: s_room1_def onconnection_def)
  have b: "get_prop (publish_msg T) ''type'' = Some (JStr ''publish'')" for T
    by (simp add: publish_msg_def)
  have c: "get_prop (publish_msg T) ''topic'' = Some (JStr T)" for T
    by (simp add: publish_msg_def)
  have d: "fst s_room1 ''room1'' = Some [0, 1]" "fst s_room1 ''room2'' = None"
    by (simp_all add: s_room1_def)
  have e: "assign (publish_msg ''room1'') ''clients'' (JNum (int (length [0::nat, 1])))
             = delivered_msg ''room1'' 2"
    by (simp add: publish_msg_def delivered_msg_def)
  from publish_fanout [OF a b c, of "''room1''" "fst s_room1" "[0, 1]" all_open 0]
       publish_fanout [OF a b c, of "''room2''" "fst s_room1" "[]" all_open 0]
       a b c d e
  show ?thesis by simp
qed

text \<open>
  C6 as it is written fails for the topic whose name is the empty string: connection 1 is
  subscribed to it, so N = 1, and a publish to it delivers nothing, because the handler
  tests \<open>message.topic\<close> for truthiness.
\<close>

theorem publish_empty_name_delivers_nothing:
  "subscribers (fst s_empty_name) '''' = [1]
   \<and> \<not> closed (snd s_empty_name)
   \<and> onmessage all_open 1 (Parsed (publish_msg '''')) s_empty_name = Inr (s_empty_name, [])"
  by (simp add: onmessage_def publish_msg_def s_empty_name_def onconnection_def publish_def
      subscribers_def)

subsection \<open>The heartbeat tick\<close>

text \<open>
  C7. On a tick, when no acknowledgment arrived since the previous probe, the handler calls
  \<open>conn.close()\<close> and cancels the timer; otherwise it resets \<open>pongReceived\<close> to false and
  sends a probe with \<open>conn.ping()\<close>, calling \<open>conn.close()\<close> exactly when the probe throws.
  The pong handler sets \<open>pongReceived\<close> to true.
\<close>

theorem heartbeat_tick:
  "(\<not> pongReceived cl \<longrightarrow>
      ontick ch conn cl = (cl\<lparr>pingInterval := False\<rparr>, [ConnClose conn]))
   \<and> (pongReceived cl \<longrightarrow>
      fst (ontick ch conn cl) = cl\<lparr>pongReceived := False\<rparr>
      \<and> hd (snd (ontick ch conn cl)) = ConnPing conn
      \<and> (ConnClose conn \<in> set (snd (ontick ch conn cl))) = ping_throws ch conn)
   \<and> pongReceived (onpong cl)
   \<and> onpong cl = cl\<lparr>pongReceived := True\<rparr>"
  by (simp add: ontick_def onpong_def)

text \<open>
  A fresh connection that never acknowledges: the first tick sends the probe, the second
  closes the connection and cancels the timer.
\<close>

theorem heartbeat_tick_witness:
  "pongReceived onconnection
   \<and> fst (ontick all_open 0 onconnection) = onconnection\<lparr>pongReceived := False\<rparr>
   \<and> snd (ontick all_open 0 onconnection) = [ConnPing 0]
   \<and> \<not> pongReceived (onconnection\<lparr>pongReceived := False\<rparr>)
   \<and> ontick all_open 0 (onconnection\<lparr>pongReceived := False\<rparr>)
       = (onconnection\<lparr>pongReceived := False, pingInterval := False\<rparr>, [ConnClose 0])"
  using heartbeat_tick [of onconnection all_open 0]
        heartbeat_tick [of "onconnection\<lparr>pongReceived := False\<rparr>" all_open 0]
  by (simp add: onconnection_def all_open_def ontick_def)

subsection \<open>Subscribing twice\<close>

text \<open>
  C8. On a connection that is not closed, a \<open>subscribe\<close> message with an array of topics
  is handled without error, and handling the same message again leaves the whole state as
  it is after the first time; neither makes a call. For the single topic T, where T had no
  subscriber or only this connection, the subscriber set of T then holds this connection
  alone: its size is 1.
\<close>

theorem subscribe_idempotent:
  assumes "\<not> closed cl"
    and "get_prop message ''type'' = Some (JStr ''subscribe'')"
    and "get_prop message ''topics'' = Some (JArr xs)"
  shows "\<exists>s1. onmessage ch conn (Parsed message) (tp, cl) = Inr (s1, [])
           \<and> onmessage ch conn (Parsed message) s1 = Inr (s1, [])
           \<and> (xs = [JStr T] \<and> (subscribers tp T = [] \<or> subscribers tp T = [conn])
                \<longrightarrow> subscribers (fst s1) T = [conn])"
proof -
  define s1 where "s1 = fold (subscribe_each conn) xs (tp, cl)"
  have t: "truthy message"
    using assms(2) by (rule get_prop_truthy)
  have once: "onmessage ch conn (Parsed message) (tp, cl) = Inr (s1, [])"
    using assms t by (simp add: onmessage_def s1_def)
  have "\<not> closed (snd s1)"
    using assms(1) by (simp add: s1_def closed_fold_subscribe)
  then have twice: "onmessage ch conn (Parsed message) s1 = Inr (s1, [])"
    using assms(2,3) t by (simp add: onmessage_def s1_def fold_subscribe_twice)
  have size: "subscribers (fst s1) T = [conn]"
    if "xs = [JStr T]" and "subscribers tp T = [] \<or> subscribers tp T = [conn]"
    using that
    by (auto simp: s1_def subscribers_def setIfUndefined_def set_add_def split: option.splits)
  from once twice size show ?thesis by blast
qed

theorem subscribe_idempotent_witness:
  "\<not> closed (snd s_fresh)
   \<and> get_prop (subscribe_msg [''a'']) ''type'' = Some (JStr ''subscribe'')
   \<and> get_prop (subscribe_msg [''a'']) ''topics'' = Some (JArr [JStr ''a''])
   \<and> subscribers (fst s_fresh) ''a'' = []
   \<and> onmessage all_open 0 (Parsed (subscribe_msg [''a''])) s_fresh = Inr (s_sub, [])
   \<and> onmessage all_open 0 (Parsed (subscribe_msg [''a''])) s_sub = Inr (s_sub, [])
   \<and> length (subscribers (fst s_sub) ''a'') = 1"
proof -
  have a: "\<not> closed (snd s_fresh)"
    by (simp add: s_fresh_def onconnection_def)
  have b: "get_prop (subscribe_msg [''a'']) ''type'' = Some (JStr ''subscribe'')"
    by (simp add: subscribe_msg_def)
  have c: "get_prop (subscribe_msg [''a'']) ''topics'' = Some (JArr [JStr ''a''])"
    by (simp add: subscribe_msg_def)
  have d: "subscribers (fst s_fresh) ''a'' = []"
    by (simp add: s_fresh_def subscribers_def)
  have e: "(fst s_fresh, snd s_fresh) = s_fresh"
    by simp
  have f: "onmessage all_open 0 (Parsed (subscribe_msg [''a''])) s_fresh = Inr (s_sub, [])"
    by (simp add: onmessage_def subscribe_msg_def s_fresh_def s_sub_def onconnection_def
        setIfUndefined_def set_add_def)
  from subscribe_idempotent [OF a b c, of all_open 0 "fst s_fresh" "''a''"]
  obtain s1 where s1: "onmessage all_open 0 (Parsed (subscribe_msg [''a''])) s_fresh = Inr (s1, [])"
    "onmessage all_open 0 (Parsed (subscribe_msg [''a''])) s1 = Inr (s1, [])"
    "subscribers (fst s1) ''a'' = [0]"
    unfolding e using d by auto
  from s1(1) f have "s1 = s_sub" by simp
  with s1 a b c d show ?thesis by simp
qed

subsection \<open>Messages after close\<close>

text \<open>
  C9. Once the \<open>closed\<close> flag of a connection is set, every message that parses, of
  whatever type, leaves the registry and the connection's own state unchanged and makes no
  call on any channel.
\<close>

theorem closed_is_inert:
  "closed cl \<Longrightarrow> onmessage ch conn (Parsed message) (tp, cl) = Inr ((tp, cl), [])"
  by (simp add: onmessage_def)

theorem closed_is_inert_witness:
  "closed (snd s_room1_closed)
   \<and> onmessage all_open 0 (Parsed (subscribe_msg [''room1''])) s_room1_closed = Inr (s_room1_closed, [])
   \<and> onmessage all_open 0 (Parsed (unsubscribe_msg [''room1''])) s_room1_closed = Inr (s_room1_closed, [])
   \<and> onmessage all_open 0 (Parsed (publish_msg ''room1'')) s_room1_closed = Inr (s_room1_closed, [])
   \<and> onmessage all_open 0 (Parsed ping_msg) s_room1_closed = Inr (s_room1_closed, [])"
proof -
  have a: "closed (snd s_room1_closed)"
    by (simp add: s_room1_closed_def)
  have b: "(fst s_room1_closed, snd s_room1_closed) = s_room1_closed"
    by simp
  from a closed_is_inert [OF a, of all_open 0 "subscribe_msg [''room1'']" "fst s_room1_closed"]
    closed_is_inert [OF a, of all_open 0 "unsubscribe_msg [''room1'']" "fst s_room1_closed"]
    closed_is_inert [OF a, of all_open 0 "publish_msg ''room1''" "fst s_room1_closed"]
    closed_is_inert [OF a, of all_open 0 ping_msg "fst s_room1_closed"]
  show ?thesis unfolding b by simp
qed

subsection \<open>The empty topic name\<close>

text \<open>
  C10. A \<open>subscribe\<close> to the topic whose name is the empty string is accepted: the
  connection is added to the entry of that name, created if need be, and the name is added
  to \<open>subscribedTopics\<close>. A \<open>publish\<close> whose \<open>topic\<close> is the empty string makes no call and
  changes nothing, in every state and from every connection, also when the empty-named
  topic has subscribers.
\<close>

theorem empty_string_topic:
  assumes "\<not> closed cl"
    and "get_prop sub ''type'' = Some (JStr ''subscribe'')"
    and "get_prop sub ''topics'' = Some (JArr [JStr ''''])"
    and "get_prop pub ''type'' = Some (JStr ''publish'')"
    and "get_prop pub ''topic'' = Some (JStr '''')"
  shows "onmessage ch conn (Parsed sub) (tp, cl)
           = Inr ((tp('''' \<mapsto> set_add conn (subscribers tp '''')),
                   cl\<lparr>subscribedTopics := set_add '''' (subscribedTopics cl)\<rparr>), [])
         \<and> conn \<in> set (set_add conn (subscribers tp ''''))
         \<and> '''' \<in> set (set_add '''' (subscribedTopics cl))
         \<and> onmessage ch' conn' (Parsed pub) s' = Inr (s', [])"
proof -
  have "truthy sub" "truthy pub"
    using assms(2,4) by (simp_all add: get_prop_truthy)
  with assms show ?thesis
    by (simp add: onmessage_def publish_def subscribers_def setIfUndefined_def set_add_member
        split: option.splits)
qed

theorem empty_string_topic_witness:
  "\<not> closed (snd s_fresh)
   \<and> onmessage all_open 1 (Parsed (subscribe_msg [''''])) s_fresh = Inr (s_empty_name, [])
   \<and> subscribers (fst s_empty_name) '''' = [1]
   \<and> onmessage all_open 1 (Parsed (publish_msg '''')) s_empty_name = Inr (s_empty_name, [])"
proof -
  have a: "\<not> closed (snd s_fresh)"
    by (simp add: s_fresh_def onconnection_def)
  have b: "get_prop (subscribe_msg ['''']) ''type'' = Some (JStr ''subscribe'')"
    "get_prop (subscribe_msg ['''']) ''topics'' = Some (JArr [JStr ''''])"
    by (simp_all add: subscribe_msg_def)
  have c: "get_prop (publish_msg '''') ''type'' = Some (JStr ''publish'')"
    "get_prop (publish_msg '''') ''topic'' = Some (JStr '''')"
    by (simp_all add: publish_msg_def)
  have d: "((fst s_fresh)('''' \<mapsto> set_add 1 (subscribers (fst s_fresh) '''')),
            (snd s_fresh)\<lparr>subscribedTopics := set_add '''' (subscribedTopics (snd s_fresh))\<rparr>)
           = s_empty_name"
    by (simp add: s_fresh_def s_empty_name_def subscribers_def set_add_def onconnection_def)
  have e: "(fst s_fresh, snd s_fresh) = s_fresh"
    by simp
  have f: "subscribers (fst s_empty_name) '''' = [1]"
    by (simp add: s_empty_name_def subscribers_def)
  from empty_string_topic [OF a b c, of all_open 1 "fst s_fresh" all_open 1 s_empty_name] a f
  show ?thesis unfolding d e by simp
qed

end
